theory Spec2Isabelle
  imports Complex_Main
begin

section \<open>Conventions of the embedding\<close>

text \<open>
  The sources are React function components. A component function runs once per render;
  the values it reads from its hooks (\<open>const [x, setX] = useState(...)\<close>) are \<open>const\<close>
  bindings of that one run, so every handler defined in a render reads the values of that
  render, and a call of a setter never changes what the running handler reads. A handler is
  therefore embedded as a function of the values its closure holds (a record named
  \<open>..._render\<close>) and of its argument, returning the list of effects it performs in order:
  setter calls, socket messages, navigations. Applying the setter calls to the component
  state gives the state of the next render.

  JavaScript truthiness is written out: \<open>undefined\<close>/\<open>null\<close> is \<open>None\<close>, the empty
  string and the number 0 are falsy. Timestamps and durations are integers (milliseconds or
  seconds as the source has them).
\<close>

definition falsy_str :: "string option \<Rightarrow> bool" where
  "falsy_str s = (case s of None \<Rightarrow> True | Some v \<Rightarrow> v = [])"

definition or_default :: "int option \<Rightarrow> int \<Rightarrow> int" where
  \<comment> \<open>\<open>x || d\<close> on a number that may be undefined\<close>
  "or_default x d = (case x of None \<Rightarrow> d | Some v \<Rightarrow> if v = 0 then d else v)"

section \<open>types/index.ts\<close>

text \<open>
  Field names follow the source; where two interfaces share a field name, the event
  payloads carry a short prefix (\<open>qs_\<close> for \<open>question_start\<close>, \<open>dr_\<close> for
  \<open>duel_reconnected\<close>, \<open>de_\<close> for \<open>duel_end\<close>, \<open>tk_\<close> for a ticket, \<open>u_\<close> for
  a user, \<open>a_\<close> for an answer message). Fields that no component reads (the dates
  of a user or a ticket) are left out.
\<close>

record User =
  u_id :: string
  username :: string
  rating :: int

record MatchmakingTicket =
  tk_id :: string
  tk_userId :: string
  tk_topic :: string

record Scores =
  player1 :: int
  player2 :: int

record QuestionView =
  prompt :: string
  options :: "string list"

record Opponent =
  o_id :: string
  o_username :: string

record AnswerMsg =
  a_duelId :: "string option"
  a_questionIndex :: int
  selectedIndex :: int
  clientTs :: int

datatype client_msg =
    join_queue string "string option"   \<comment> \<open>userId, topic\<close>
  | cancel_queue string                 \<comment> \<open>ticketId\<close>
  | answer AnswerMsg

text \<open>
  A string-valued field of a JSON payload as JavaScript sees it: absent, \<open>null\<close>, or a
  string.
\<close>

datatype js_string = Undefined | Null | Str string

text \<open>
  The \<open>deadline\<close> field of \<open>question_start\<close>. The interface declares a string (the
  source parses it as a date); the handler is untyped (\<open>data: any\<close>), so the field may
  also be absent or a number.
\<close>

datatype deadline_field = NoDeadline | DeadlineString string | DeadlineNumber int

text \<open>\<open>question_start\<close>; \<open>qs_timeLimit\<close> is in seconds.\<close>

record question_start =
  qs_questionIndex :: int
  qs_question :: QuestionView
  qs_deadline :: deadline_field
  qs_timeLimit :: "int option"

record duel_reconnected =
  dr_duelId :: string
  dr_currentQuestion :: int
  dr_scores :: Scores
  dr_status :: string

record duel_end =
  de_duelId :: string
  de_winnerId :: js_string
  de_finalScores :: Scores
  de_duration :: int

section \<open>TopicSelection.tsx\<close>

definition toggleTopic :: "string \<Rightarrow> string list \<Rightarrow> string list" where
  "toggleTopic t prev =
     (if t \<in> set prev then filter (\<lambda>u. u \<noteq> t) prev else prev @ [t])"

datatype topic_effect =
    Alert string
  | SetIsLoading bool
  | NavigateMatchmaking string   \<comment> \<open>\<open>navigate('/matchmaking', { state: { topic } })\<close>\<close>

definition startDuel :: "string list \<Rightarrow> topic_effect list" where
  "startDuel selectedTopics =
     (if length selectedTopics = 0 then [Alert ''Please select at least one topic'']
      else [SetIsLoading True, NavigateMatchmaking (selectedTopics ! 0)])"

section \<open>MatchmakingScreen (second component of TopicSelection.tsx)\<close>

record mm_render =
  user :: "User option"
  socket :: bool                          \<comment> \<open>the context's socket is not null\<close>
  topic :: "string option"                \<comment> \<open>\<open>location.state?.topic\<close>\<close>
  ticket :: "MatchmakingTicket option"
  isSearching :: bool

datatype mm_effect =
    Emit client_msg
  | SetIsSearching bool
  | SetTicket "MatchmakingTicket option"
  | Navigate string
  | AlertError

text \<open>SocketContext.tsx, \<open>emit\<close>: sends only when the socket exists.\<close>

definition emit :: "bool \<Rightarrow> client_msg \<Rightarrow> mm_effect list" where
  "emit sock m = (if sock then [Emit m] else [])"

definition startMatchmaking :: "mm_render \<Rightarrow> mm_effect list" where
  "startMatchmaking r =
     (case user r of
        None \<Rightarrow> []
      | Some u \<Rightarrow>
          if \<not> socket r then []
          else SetIsSearching True # emit (socket r) (join_queue (u_id u) (topic r)))"

definition handleQueueJoined :: "MatchmakingTicket \<Rightarrow> mm_effect list" where
  "handleQueueJoined t = [SetTicket (Some t)]"

definition handleMatched :: "string \<Rightarrow> mm_effect list" where
  "handleMatched duel = [SetIsSearching False, Navigate (''/lobby/'' @ duel)]"

definition handleError :: "mm_effect list" where
  "handleError = [SetIsSearching False, AlertError]"

definition cancelMatchmaking :: "mm_render \<Rightarrow> mm_effect list" where
  "cancelMatchmaking r =
     (case ticket r of None \<Rightarrow> [] | Some t \<Rightarrow> emit (socket r) (cancel_queue (tk_id t)))
     @ [SetIsSearching False, Navigate ''/topics'']"

text \<open>
  The body of \<open>useEffect(..., [user, topic])\<close>: its effects, and whether it returned the
  cleanup function (the early return does not).
\<close>

definition mm_effect_body :: "mm_render \<Rightarrow> mm_effect list \<times> bool" where
  "mm_effect_body r =
     (if user r = None \<or> falsy_str (topic r) then ([Navigate ''/topics''], False)
      else (startMatchmaking r, True))"

text \<open>The cleanup function returned by the effect that ran in render \<open>r\<close>.\<close>

definition mm_cleanup :: "mm_render \<Rightarrow> mm_effect list" where
  "mm_cleanup r =
     (case ticket r of None \<Rightarrow> [] | Some t \<Rightarrow> emit (socket r) (cancel_queue (tk_id t)))"

fun mm_apply :: "mm_render \<Rightarrow> mm_effect \<Rightarrow> mm_render" where
  "mm_apply r (SetIsSearching b) = r\<lparr>isSearching := b\<rparr>"
| "mm_apply r (SetTicket t) = r\<lparr>ticket := t\<rparr>"
| "mm_apply r _ = r"

text \<open>
  The life of one MatchmakingScreen while \<open>user\<close> and \<open>topic\<close> stay the same.
  React runs an effect with a dependency list after the first render and again only after
  a render in which a dependency changed; the listeners it registered and the cleanup it
  returned keep the closure of the render in which it ran. With \<open>[user, topic]\<close> constant
  that is the first render, kept in \<open>installed\<close>; \<open>current\<close> is the latest render, whose
  closure the cancel button's \<open>onClick\<close> has. The listeners exist only if the effect got
  past its early return and the socket existed (\<open>on\<close> of SocketContext.tsx). They
  outlive the screen: \<open>on\<close> registers a wrapper of the handler and \<open>off\<close> is given the
  handler itself, so the cleanup removes nothing. A setter called after the unmount
  changes nothing.
\<close>

record mm_component =
  current :: mm_render
  installed :: "mm_render option"
  mounted :: bool

datatype mm_event =
    QueueJoined MatchmakingTicket
  | Matched string
  | SocketError
  | ClickCancel
  | Unmount

definition mm_mount :: "User option \<Rightarrow> bool \<Rightarrow> string option \<Rightarrow> mm_component \<times> mm_effect list" where
  "mm_mount u sock t =
     (let r = \<lparr>user = u, socket = sock, topic = t, ticket = None, isSearching = False\<rparr>;
          (es, keeps) = mm_effect_body r
      in (\<lparr>current = foldl mm_apply r es,
           installed = (if keeps then Some r else None),
           mounted = True\<rparr>, es))"

definition mm_listening :: "mm_component \<Rightarrow> bool" where
  "mm_listening c = (case installed c of None \<Rightarrow> False | Some r \<Rightarrow> socket r)"

definition mm_dispatch :: "mm_component \<Rightarrow> mm_effect list \<Rightarrow> mm_component \<times> mm_effect list" where
  "mm_dispatch c es =
     ((if mounted c then c\<lparr>current := foldl mm_apply (current c) es\<rparr> else c), es)"

fun mm_step :: "mm_component \<Rightarrow> mm_event \<Rightarrow> mm_component \<times> mm_effect list" where
  "mm_step c (QueueJoined t) =
     (if mm_listening c then mm_dispatch c (handleQueueJoined t) else (c, []))"
| "mm_step c (Matched duel) =
     (if mm_listening c then mm_dispatch c (handleMatched duel) else (c, []))"
| "mm_step c SocketError =
     (if mm_listening c then mm_dispatch c handleError else (c, []))"
| "mm_step c ClickCancel =
     (if mounted c then mm_dispatch c (cancelMatchmaking (current c)) else (c, []))"
| "mm_step c Unmount =
     (if mounted c
      then (c\<lparr>mounted := False\<rparr>,
            case installed c of None \<Rightarrow> [] | Some r \<Rightarrow> mm_cleanup r)
      else (c, []))"

fun mm_run :: "mm_component \<times> mm_effect list \<Rightarrow> mm_event list \<Rightarrow> mm_component \<times> mm_effect list" where
  "mm_run ce [] = ce"
| "mm_run (c, es) (ev # evs) = (let (c', es') = mm_step c ev in mm_run (c', es @ es') evs)"

fun emitted :: "mm_effect list \<Rightarrow> client_msg list" where
  "emitted [] = []"
| "emitted (Emit m # es) = m # emitted es"
| "emitted (_ # es) = emitted es"

section \<open>DuelScreen.tsx\<close>

text \<open>
  The values a render of DuelScreen binds: its state hooks, and from the contexts the
  connection flag, the socket (\<open>d_socket\<close>: it is not null) and the route's \<open>duelId\<close>.
\<close>

record duel_render =
  currentQuestion :: "QuestionView option"
  questionIndex :: int
  timeLeft :: int
  selectedAnswer :: "int option"
  hasAnswered :: bool
  scores :: Scores
  showResult :: bool
  isWaitingForNext :: bool
  isConnected :: bool
  d_socket :: bool
  duelId :: "string option"

text \<open>What \<open>navigate('/results/...', { state })\<close> hands to ResultsScreen.\<close>

record results_state =
  rs_winnerId :: js_string
  rs_finalScores :: "Scores option"
  rs_duration :: "int option"
  rs_opponent :: "Opponent option"
  rs_topic :: "string option"

datatype timer_cb =
    UpdateTimer int            \<comment> \<open>\<open>updateTimer\<close>, closed over the deadline (ms)\<close>
  | UpdateFallbackTimer int    \<comment> \<open>\<open>updateFallbackTimer\<close>, closed over \<open>endTime\<close> (ms)\<close>
  | SubmitOnTimeout            \<comment> \<open>\<open>() => { submitAnswer(-1).catch(...) }\<close>\<close>

datatype js_error = TypeError | RangeError

datatype duel_effect =
    ClearQuestionTimer              \<comment> \<open>\<open>if (window.questionTimer) clearTimeout(window.questionTimer)\<close>\<close>
  | SetCurrentQuestion "QuestionView option"
  | SetQuestionIndex int
  | SetTimeLeft int
  | SetSelectedAnswer "int option"
  | SetHasAnswered bool
  | SetScores Scores
  | SetShowResult bool
  | SetIsWaitingForNext bool
  | SetQuestionTimer int timer_cb   \<comment> \<open>\<open>window.questionTimer = setTimeout(f, delay)\<close>\<close>
  | SetTimeout int timer_cb         \<comment> \<open>\<open>setTimeout(f, delay)\<close>, its id not kept\<close>
  | EmitAnswer AnswerMsg
  | Uncaught js_error               \<comment> \<open>the running callback ends in an uncaught exception\<close>
  | NavigateTopics
  | NavigateResults results_state

text \<open>\<open>Math.max(0, Math.ceil(remainingMs / 1000))\<close>\<close>

definition remainingSeconds :: "int \<Rightarrow> int" where
  "remainingSeconds remainingMs = max 0 \<lceil>real_of_int remainingMs / 1000\<rceil>"

text \<open>\<open>submitAnswer(optionIndex)\<close> called at client time \<open>now\<close> (\<open>Date.now()\<close>).\<close>

definition submitAnswer :: "duel_render \<Rightarrow> int \<Rightarrow> int \<Rightarrow> duel_effect list" where
  "submitAnswer r optionIndex now =
     (if hasAnswered r \<or> timeLeft r \<le> 0 then []
      else if \<not> isConnected r \<or> \<not> d_socket r then []
      else [EmitAnswer \<lparr>a_duelId = duelId r, a_questionIndex = questionIndex r,
                        selectedIndex = optionIndex, clientTs = now\<rparr>,
            SetSelectedAnswer (Some optionIndex),
            SetHasAnswered True])"

definition updateTimer :: "duel_render \<Rightarrow> int \<Rightarrow> int \<Rightarrow> duel_effect list" where
  "updateTimer r deadline now =
     (let remainingMs = deadline - now in
      SetTimeLeft (remainingSeconds remainingMs) #
      (if remainingMs > 100 then [SetQuestionTimer 100 (UpdateTimer deadline)]
       else if \<not> hasAnswered r then [SetTimeout 100 SubmitOnTimeout]
       else []))"

definition updateFallbackTimer :: "duel_render \<Rightarrow> int \<Rightarrow> int \<Rightarrow> duel_effect list" where
  "updateFallbackTimer r endTime now =
     (let remainingMs = endTime - now in
      SetTimeLeft (remainingSeconds remainingMs) #
      (if remainingMs > 0 then [SetQuestionTimer 100 (UpdateFallbackTimer endTime)]
       else if \<not> hasAnswered r then submitAnswer r (- 1) now
       else []))"

text \<open>
  \<open>if (data.deadline)\<close>: an absent field, the empty string and the number 0 are falsy.
\<close>

definition truthy_deadline :: "deadline_field \<Rightarrow> bool" where
  "truthy_deadline v =
     (case v of NoDeadline \<Rightarrow> False | DeadlineString s \<Rightarrow> s \<noteq> [] | DeadlineNumber n \<Rightarrow> n \<noteq> 0)"

definition endsWithZ :: "string \<Rightarrow> bool" where
  \<comment> \<open>\<open>serverTime.endsWith('Z')\<close>\<close>
  "endsWithZ s = (s \<noteq> [] \<and> last s = CHR ''Z'')"

text \<open>
  \<open>parseServerTime\<close>. \<open>parse\<close> stands for JavaScript's \<open>new Date(string).getTime()\<close>,
  with \<open>None\<close> for an invalid date. A value that is not a string has no \<open>endsWith\<close>:
  the call raises a TypeError.
\<close>

definition parseServerTime :: "(string \<Rightarrow> int option) \<Rightarrow> deadline_field \<Rightarrow> js_error + int option" where
  "parseServerTime parse serverTime =
     (case serverTime of
        DeadlineString s \<Rightarrow> Inr (parse (if endsWithZ s then s else s @ ''Z''))
      | DeadlineNumber n \<Rightarrow> Inl TypeError
      | NoDeadline \<Rightarrow> Inl TypeError)"

text \<open>
  \<open>handleQuestionStart(data)\<close> called at client time \<open>now\<close>. In the first branch the
  handler logs \<open>deadline.toISOString()\<close>, which raises a RangeError on an invalid date,
  before it defines the timer function. The first call of the timer function is part of
  the handler.
\<close>

definition handleQuestionStart ::
  "(string \<Rightarrow> int option) \<Rightarrow> duel_render \<Rightarrow> question_start \<Rightarrow> int \<Rightarrow> duel_effect list" where
  "handleQuestionStart parse r data now =
     [ClearQuestionTimer,
      SetCurrentQuestion (Some (qs_question data)),
      SetQuestionIndex (qs_questionIndex data),
      SetSelectedAnswer None,
      SetHasAnswered False,
      SetShowResult False,
      SetIsWaitingForNext False]
     @ (if truthy_deadline (qs_deadline data) then
          (case parseServerTime parse (qs_deadline data) of
             Inl e \<Rightarrow> [Uncaught e]
           | Inr None \<Rightarrow> [Uncaught RangeError]
           | Inr (Some deadline) \<Rightarrow> updateTimer r deadline now)
        else
          (let timeLimit = or_default (qs_timeLimit data) 9;
               endTime = now + timeLimit * 1000
           in SetTimeLeft timeLimit # updateFallbackTimer r endTime now))"

text \<open>
  The instant at which the countdown started by \<open>handleQuestionStart\<close> reaches zero: the
  source's \<open>deadline.getTime()\<close> in the first branch, its \<open>endTime\<close> in the second;
  none when the handler raises before it starts a countdown.
\<close>

definition countdownEnd :: "(string \<Rightarrow> int option) \<Rightarrow> question_start \<Rightarrow> int \<Rightarrow> int option" where
  "countdownEnd parse data now =
     (if truthy_deadline (qs_deadline data) then
        (case parseServerTime parse (qs_deadline data) of
           Inl e \<Rightarrow> None
         | Inr deadline \<Rightarrow> deadline)
      else Some (now + or_default (qs_timeLimit data) 9 * 1000))"

definition handleDuelReconnected :: "duel_reconnected \<Rightarrow> duel_effect list" where
  "handleDuelReconnected data =
     [SetScores (dr_scores data),
      SetQuestionIndex (or_default (Some (dr_currentQuestion data)) 0)]"

definition handleDuelEnd :: "Opponent option \<Rightarrow> string option \<Rightarrow> duel_end \<Rightarrow> duel_effect list" where
  "handleDuelEnd opponent topic' data =
     [NavigateResults \<lparr>rs_winnerId = de_winnerId data,
                       rs_finalScores = Some (de_finalScores data),
                       rs_duration = Some (de_duration data),
                       rs_opponent = opponent,
                       rs_topic = topic'\<rparr>]"

fun duel_apply :: "duel_render \<Rightarrow> duel_effect \<Rightarrow> duel_render" where
  "duel_apply r (SetCurrentQuestion q) = r\<lparr>currentQuestion := q\<rparr>"
| "duel_apply r (SetQuestionIndex i) = r\<lparr>questionIndex := i\<rparr>"
| "duel_apply r (SetTimeLeft t) = r\<lparr>timeLeft := t\<rparr>"
| "duel_apply r (SetSelectedAnswer a) = r\<lparr>selectedAnswer := a\<rparr>"
| "duel_apply r (SetHasAnswered b) = r\<lparr>hasAnswered := b\<rparr>"
| "duel_apply r (SetScores sc) = r\<lparr>scores := sc\<rparr>"
| "duel_apply r (SetShowResult b) = r\<lparr>showResult := b\<rparr>"
| "duel_apply r (SetIsWaitingForNext b) = r\<lparr>isWaitingForNext := b\<rparr>"
| "duel_apply r _ = r"

text \<open>The next render: the setter calls of a handler applied in order.\<close>

definition rerender :: "duel_render \<Rightarrow> duel_effect list \<Rightarrow> duel_render" where
  "rerender r es = foldl duel_apply r es"

text \<open>
  What a timer callback does when it runs at client time \<open>now\<close>. The callbacks are the
  ones created by the handler, so they keep its closure \<open>r\<close>. \<open>submitAnswer\<close> returns
  \<open>undefined\<close>, so the \<open>.catch\<close> of the timeout callback raises a TypeError after
  \<open>submitAnswer(-1)\<close> has run.
\<close>

fun fire :: "duel_render \<Rightarrow> timer_cb \<Rightarrow> int \<Rightarrow> duel_effect list" where
  "fire r (UpdateTimer deadline) now = updateTimer r deadline now"
| "fire r (UpdateFallbackTimer endTime) now = updateFallbackTimer r endTime now"
| "fire r SubmitOnTimeout now = submitAnswer r (- 1) now @ [Uncaught TypeError]"

fun answersOf :: "duel_effect list \<Rightarrow> AnswerMsg list" where
  "answersOf [] = []"
| "answersOf (EmitAnswer a # es) = a # answersOf es"
| "answersOf (_ # es) = answersOf es"

subsection \<open>The mounted DuelScreen\<close>

text \<open>
  The life of one mounted DuelScreen while \<open>user\<close>, \<open>duelId\<close> and \<open>opponent\<close> stay the
  same. The effect \<open>useEffect(..., [user, duelId, opponent])\<close> runs after the first
  render only, so the socket listeners are the handlers of the first render, kept in
  \<open>listeners\<close>, and every timer callback is created by one of them; \<open>shown\<close> is the
  latest render, whose \<open>submitAnswer\<close> the option buttons call: there is one button for
  each option of the current question, disabled when \<open>hasAnswered || timeLeft <= 0\<close>,
  and none before the first question. The listeners exist only if the effect got past its
  early return and the socket existed (\<open>on\<close> of SocketContext.tsx).

  \<open>timeouts\<close> are the pending \<open>setTimeout\<close> calls in the order they were made, each with
  its id, the client time at which it is due and its callback; \<open>questionTimer\<close> is
  \<open>window.questionTimer\<close>, the id last stored there.
\<close>

record duel_component =
  shown :: duel_render
  listeners :: "duel_render option"
  timeouts :: "(nat \<times> int \<times> timer_cb) list"
  nextTimeoutId :: nat
  questionTimer :: "nat option"

datatype duel_event =
    QuestionStart question_start int   \<comment> \<open>the socket delivers \<open>question_start\<close> at client time \<open>now\<close>\<close>
  | ClickOption int int                \<comment> \<open>the user clicks option \<open>index\<close> at client time \<open>now\<close>\<close>
  | TimeoutFires                       \<comment> \<open>the pending timeout that is due first runs, at its due time\<close>

definition duel_mount ::
  "User option \<Rightarrow> string option \<Rightarrow> Opponent option \<Rightarrow> bool \<Rightarrow> bool \<Rightarrow> duel_component \<times> duel_effect list" where
  "duel_mount usr duel opponent conn sock =
     (let r = \<lparr>currentQuestion = None, questionIndex = 0, timeLeft = 9, selectedAnswer = None,
               hasAnswered = False, scores = \<lparr>player1 = 0, player2 = 0\<rparr>, showResult = False,
               isWaitingForNext = False, isConnected = conn, d_socket = sock,
               duelId = duel\<rparr>
      in if usr = None \<or> falsy_str duel \<or> opponent = None
         then (\<lparr>shown = r, listeners = None, timeouts = [], nextTimeoutId = 1,
                 questionTimer = None\<rparr>, [NavigateTopics])
         else (\<lparr>shown = r, listeners = (if sock then Some r else None), timeouts = [],
                 nextTimeoutId = 1, questionTimer = None\<rparr>, []))"

text \<open>One effect of a callback that runs at client time \<open>now\<close>, applied to the component.\<close>

fun perform :: "int \<Rightarrow> duel_component \<Rightarrow> duel_effect \<Rightarrow> duel_component" where
  "perform now c ClearQuestionTimer =
     (case questionTimer c of
        None \<Rightarrow> c
      | Some i \<Rightarrow> c\<lparr>timeouts := filter (\<lambda>(j, due, cb). j \<noteq> i) (timeouts c)\<rparr>)"
| "perform now c (SetQuestionTimer delay cb) =
     c\<lparr>timeouts := timeouts c @ [(nextTimeoutId c, now + delay, cb)],
       questionTimer := Some (nextTimeoutId c),
       nextTimeoutId := Suc (nextTimeoutId c)\<rparr>"
| "perform now c (SetTimeout delay cb) =
     c\<lparr>timeouts := timeouts c @ [(nextTimeoutId c, now + delay, cb)],
       nextTimeoutId := Suc (nextTimeoutId c)\<rparr>"
| "perform now c e = c\<lparr>shown := duel_apply (shown c) e\<rparr>"

text \<open>The pending timeout that is due first; among equals, the one set first.\<close>

fun dueFirst :: "(nat \<times> int \<times> timer_cb) list \<Rightarrow> (nat \<times> int \<times> timer_cb) option" where
  "dueFirst [] = None"
| "dueFirst ((i, due, cb) # ts) =
     (case dueFirst ts of
        None \<Rightarrow> Some (i, due, cb)
      | Some (j, due', cb') \<Rightarrow> if due \<le> due' then Some (i, due, cb) else Some (j, due', cb'))"

fun duel_step ::
  "(string \<Rightarrow> int option) \<Rightarrow> duel_component \<Rightarrow> duel_event \<Rightarrow> duel_component \<times> duel_effect list" where
  "duel_step parse c (QuestionStart data now) =
     (case listeners c of
        None \<Rightarrow> (c, [])
      | Some r \<Rightarrow>
          (let es = handleQuestionStart parse r data now in (foldl (perform now) c es, es)))"
| "duel_step parse c (ClickOption index now) =
     (case currentQuestion (shown c) of
        None \<Rightarrow> (c, [])
      | Some q \<Rightarrow>
          if index < 0 \<or> int (length (options q)) \<le> index then (c, [])
          else if hasAnswered (shown c) \<or> timeLeft (shown c) \<le> 0 then (c, [])
          else (let es = submitAnswer (shown c) index now in (foldl (perform now) c es, es)))"
| "duel_step parse c TimeoutFires =
     (case (dueFirst (timeouts c), listeners c) of
        (Some (i, due, cb), Some r) \<Rightarrow>
          (let es = fire r cb due
           in (foldl (perform due) (c\<lparr>timeouts := filter (\<lambda>(j, d, f). j \<noteq> i) (timeouts c)\<rparr>) es,
               es))
      | _ \<Rightarrow> (c, []))"

fun duel_run ::
  "(string \<Rightarrow> int option) \<Rightarrow> duel_component \<times> duel_effect list \<Rightarrow> duel_event list
     \<Rightarrow> duel_component \<times> duel_effect list" where
  "duel_run parse ce [] = ce"
| "duel_run parse (c, es) (ev # evs) =
     (let (c', es') = duel_step parse c ev in duel_run parse (c', es @ es') evs)"

section \<open>ResultsScreen.tsx\<close>

datatype headline = Victory | TieGame | Defeat

datatype results_view =
    Loading
  | Results headline "int option" "int option" int
    \<comment> \<open>headline, userScore, opponentScore, accuracy in percent\<close>

definition isWinner :: "js_string \<Rightarrow> User option \<Rightarrow> bool" where
  \<comment> \<open>\<open>winnerId === user?.id\<close>\<close>
  "isWinner winnerId usr =
     (winnerId = (case usr of None \<Rightarrow> Undefined | Some u \<Rightarrow> Str (u_id u)))"

definition isTie :: "js_string \<Rightarrow> bool" where
  \<comment> \<open>\<open>!winnerId\<close>\<close>
  "isTie winnerId = (winnerId = Undefined \<or> winnerId = Null \<or> winnerId = Str [])"

definition resultHeadline :: "js_string \<Rightarrow> User option \<Rightarrow> headline" where
  "resultHeadline winnerId usr =
     (if isWinner winnerId usr then Victory
      else if isTie winnerId then TieGame
      else Defeat)"

definition userScore :: "User option \<Rightarrow> Scores option \<Rightarrow> int option" where
  "userScore usr fs =
     (if map_option u_id usr = Some ''player1'' then map_option player1 fs
      else map_option player2 fs)"

definition opponentScore :: "User option \<Rightarrow> Scores option \<Rightarrow> int option" where
  "opponentScore usr fs =
     (if map_option u_id usr = Some ''player1'' then map_option player2 fs
      else map_option player1 fs)"

text \<open>\<open>Math.round(((userScore || 0) / 190) * 100)\<close>; \<open>Math.round x\<close> is \<open>\<lfloor>x + 1/2\<rfloor>\<close>.\<close>

definition accuracy :: "int option \<Rightarrow> int" where
  "accuracy us = \<lfloor>real_of_int (or_default us 0) / 190 * 100 + 1 / 2\<rfloor>"

definition ResultsScreen :: "User option \<Rightarrow> results_state \<Rightarrow> results_view" where
  "ResultsScreen usr st =
     (if rs_finalScores st = None \<or> rs_opponent st = None then Loading
      else Results (resultHeadline (rs_winnerId st) usr)
                   (userScore usr (rs_finalScores st))
                   (opponentScore usr (rs_finalScores st))
                   (accuracy (userScore usr (rs_finalScores st))))"

text \<open>
  What the results screen shows after the effects of a DuelScreen handler: every
  navigation to the results route renders ResultsScreen with the state handed over.
\<close>

fun resultsShown :: "User option \<Rightarrow> duel_effect list \<Rightarrow> results_view list" where
  "resultsShown usr [] = []"
| "resultsShown usr (NavigateResults st # es) = ResultsScreen usr st # resultsShown usr es"
| "resultsShown usr (_ # es) = resultsShown usr es"

fun headlineOf :: "results_view \<Rightarrow> headline option" where
  "headlineOf Loading = None"
| "headlineOf (Results h _ _ _) = Some h"

section \<open>utils/axiosConfig.ts: the response interceptor\<close>

text \<open>
  A request configuration: \<open>rid\<close> names the request the caller made (a replay keeps
  it), \<open>retry\<close> is the \<open>_retry\<close> mark, \<open>authorization\<close> the header the interceptor sets.
\<close>

record Request =
  rid :: nat
  retry :: bool
  authorization :: "string option"

text \<open>
  The module's variables \<open>isRefreshing\<close> and \<open>failedQueue\<close> (each queued promise keeps
  the \<open>originalRequest\<close> of the call that queued it), the call suspended at
  \<open>await axios.post(.../api/auth/refresh)\<close> if there is one, \<open>localStorage\<close>,
  \<open>window.location.href\<close> and the default Authorization header.
\<close>

record interceptor_state =
  isRefreshing :: bool
  failedQueue :: "Request list"
  awaiting :: "Request option"
  localStorage :: "string \<rightharpoonup> string"
  href :: string
  defaultAuthorization :: "string option"

datatype http_event =
    ResponseError Request "nat option"   \<comment> \<open>\<open>error.config\<close>, \<open>error.response?.status\<close>\<close>
  | RefreshResolved string               \<comment> \<open>the refresh POST returned \<open>{ token }\<close>\<close>
  | RefreshRejected                      \<comment> \<open>the refresh POST failed\<close>

datatype http_action =
    PostRefresh string     \<comment> \<open>\<open>axios.post('/api/auth/refresh', { refresh_token })\<close>\<close>
  | Send Request           \<comment> \<open>\<open>api(originalRequest)\<close>\<close>
  | Reject nat             \<comment> \<open>the caller's promise of request \<open>rid\<close> is rejected\<close>

definition bearer :: "string \<Rightarrow> string" where
  "bearer token = ''Bearer '' @ token"

text \<open>
  One run of the interceptor's code up to the next point where it waits. The promise
  reactions of the queued calls (\<open>.then\<close>/\<open>.catch\<close>) run right after the code that
  settled them, so their actions follow it in the list.
\<close>

fun interceptor :: "interceptor_state \<Rightarrow> http_event \<Rightarrow> interceptor_state \<times> http_action list" where
  "interceptor st (ResponseError originalRequest status) =
     (if status = Some 401 \<and> \<not> retry originalRequest then
        if isRefreshing st then
          (st\<lparr>failedQueue := failedQueue st @ [originalRequest]\<rparr>, [])
        else
          (let marked = originalRequest\<lparr>retry := True\<rparr>;
               st1 = st\<lparr>isRefreshing := True\<rparr>;
               refreshToken = localStorage st ''codeduel_refresh_token''
           in case refreshToken of
                Some tok \<Rightarrow>
                  if tok = [] then
                    (st1\<lparr>localStorage := Map.empty, href := ''/''\<rparr>, [Reject (rid marked)])
                  else (st1\<lparr>awaiting := Some marked\<rparr>, [PostRefresh tok])
              | None \<Rightarrow>
                  (st1\<lparr>localStorage := Map.empty, href := ''/''\<rparr>, [Reject (rid marked)]))
      else (st, [Reject (rid originalRequest)]))"
| "interceptor st (RefreshResolved newToken) =
     (case awaiting st of
        None \<Rightarrow> (st, [])
      | Some originalRequest \<Rightarrow>
          (st\<lparr>localStorage := (localStorage st)(''codeduel_token'' \<mapsto> newToken),
              defaultAuthorization := Some (bearer newToken),
              failedQueue := [],
              awaiting := None,
              isRefreshing := False\<rparr>,
           Send (originalRequest\<lparr>authorization := Some (bearer newToken)\<rparr>)
           # map (\<lambda>q. Send (q\<lparr>authorization := Some (bearer newToken)\<rparr>)) (failedQueue st)))"
| "interceptor st RefreshRejected =
     (case awaiting st of
        None \<Rightarrow> (st, [])
      | Some originalRequest \<Rightarrow>
          (st\<lparr>localStorage := Map.empty,
              href := ''/'',
              failedQueue := [],
              awaiting := None,
              isRefreshing := False\<rparr>,
           Reject (rid originalRequest) # map (\<lambda>q. Reject (rid q)) (failedQueue st)))"

fun interceptor_run :: "interceptor_state \<Rightarrow> http_event list \<Rightarrow> interceptor_state \<times> http_action list" where
  "interceptor_run st [] = (st, [])"
| "interceptor_run st (ev # evs) =
     (let (st1, as1) = interceptor st ev; (st2, as2) = interceptor_run st1 evs
      in (st2, as1 @ as2))"

definition replaysOf :: "nat \<Rightarrow> http_action list \<Rightarrow> nat" where
  "replaysOf n as = length (filter (\<lambda>a. case a of Send q \<Rightarrow> rid q = n | _ \<Rightarrow> False) as)"

definition refreshesOf :: "http_action list \<Rightarrow> nat" where
  "refreshesOf as = length (filter (\<lambda>a. case a of PostRefresh _ \<Rightarrow> True | _ \<Rightarrow> False) as)"

section \<open>The duel engine on the server (not among the sources)\<close>

text \<open>
  The server is not among the sources: its data model and operations are taken from the
  spec. Field prefixes keep the names apart from the client's.
\<close>

text \<open>
  Modelled from the spec: the states of the DuelSession state machine (section 4.2), of
  the server's DuelSession, which is missing.
\<close>

datatype session_state = PENDING | COUNTDOWN | ACTIVE nat | GRADING nat | COMPLETED | CANCELED

text \<open>
  Modelled from the spec: a Question of section 3 as the server holds it, with the correct
  index that is withheld from clients until grading.
\<close>

record Question =
  q_prompt :: string
  q_options :: "string list"
  correctIndex :: int
  explanation :: string

text \<open>Modelled from the spec: a player slot of a Session (section 3), \<open>{userId, score}\<close>.\<close>

record PlayerSlot =
  p_userId :: string
  score :: int

text \<open>
  Modelled from the spec: the AnswerRecord of section 3. \<open>responseMs\<close> is left out: the
  spec gives no rule for its value.
\<close>

record AnswerRecord =
  ar_sessionId :: string
  ar_questionIndex :: nat
  ar_userId :: string
  ar_selectedIndex :: int
  correct :: bool
  answeredAt :: int

text \<open>
  Modelled from the spec: the Session of section 3 with its two player slots, the deadline
  of the current question and, in \<open>records\<close>, the session's in-memory AnswerRecords
  (section 4.4).
\<close>

record Session =
  s_id :: string
  state :: session_state
  s_questionIndex :: nat
  questions :: "Question list"
  s_player1 :: PlayerSlot
  s_player2 :: PlayerSlot
  perQuestionDeadline :: int
  answeredThisQuestion :: "string list"
  records :: "AnswerRecord list"

text \<open>
  Modelled from the spec: the scoring policy of section 4.2, which the server executes;
  \<open>secondsRemainingAtAnswerTime = max(0, (deadline - answeredAt) / 1000)\<close>.
\<close>

definition secondsRemainingAtAnswerTime :: "int \<Rightarrow> int \<Rightarrow> real" where
  "secondsRemainingAtAnswerTime deadline answered = max 0 (real_of_int (deadline - answered) / 1000)"

text \<open>
  Modelled from the spec: the award of section 4.2 for one player and one question, with
  the configurable base and bonus per second as parameters: not correct gives 0, correct
  gives \<open>base + floor(secondsRemainingAtAnswerTime)\<close> bonus.
\<close>

definition award_with :: "int \<Rightarrow> int \<Rightarrow> bool \<Rightarrow> int \<Rightarrow> int \<Rightarrow> int" where
  "award_with base bonus is_correct deadline answered =
     (if is_correct then base + bonus * \<lfloor>secondsRemainingAtAnswerTime deadline answered\<rfloor> else 0)"

text \<open>Modelled from the spec: the award with the stated configuration, base 10 and bonus 1.\<close>

definition award :: "bool \<Rightarrow> int \<Rightarrow> int \<Rightarrow> int" where
  "award = award_with 10 1"

text \<open>
  Modelled from the spec: whether a selected index is the correct one of question \<open>q\<close> of
  the session's question set (section 4.4, "computes correct").
\<close>

definition isCorrect :: "Session \<Rightarrow> nat \<Rightarrow> int \<Rightarrow> bool" where
  "isCorrect s q sel = (q < length (questions s) \<and> sel = correctIndex (questions s ! q))"

text \<open>Modelled from the spec: the AnswerRecord of a (session, question, user) key, if any.\<close>

definition recordOf :: "Session \<Rightarrow> nat \<Rightarrow> string \<Rightarrow> AnswerRecord option" where
  "recordOf s q uid =
     find (\<lambda>a. ar_sessionId a = s_id s \<and> ar_questionIndex a = q \<and> ar_userId a = uid) (records s)"

text \<open>
  Modelled from the spec: the points of section 4.2 for one player slot at the grading of
  question \<open>q\<close>: no AnswerRecord, or a selected index other than the correct one, gives 0.
\<close>

definition pointsFor :: "Session \<Rightarrow> nat \<Rightarrow> string \<Rightarrow> int" where
  "pointsFor s q uid =
     (case recordOf s q uid of
        None \<Rightarrow> 0
      | Some a \<Rightarrow> award (isCorrect s q (ar_selectedIndex a)) (perQuestionDeadline s) (answeredAt a))"

text \<open>
  Modelled from the spec: the transition \<open>ACTIVE(q) \<rightarrow> GRADING(q)\<close> of section 4.2 with its
  scoring, independently per player slot; a no-op in every other state.
\<close>

definition grade :: "Session \<Rightarrow> Session" where
  "grade s =
     (case state s of
        ACTIVE q \<Rightarrow>
          s\<lparr>state := GRADING q,
            s_player1 := (s_player1 s)\<lparr>score := score (s_player1 s) + pointsFor s q (p_userId (s_player1 s))\<rparr>,
            s_player2 := (s_player2 s)\<lparr>score := score (s_player2 s) + pointsFor s q (p_userId (s_player2 s))\<rparr>\<rparr>
      | _ \<Rightarrow> s)"

text \<open>Modelled from the spec: the error taxonomy of section 7 that \<open>submit\<close> can report.\<close>

datatype submit_error = SessionNotFound | StaleQuestion | LateAnswer | AlreadyAnswered

text \<open>
  Modelled from the spec: AnswerProcessor's \<open>submit\<close> of section 4.4 over the
  SessionManager's registry, with its four checks in the stated order (the first failing
  check wins); on success it records the AnswerRecord and marks the player as answered.
\<close>

definition submit ::
  "(string \<rightharpoonup> Session) \<Rightarrow> string \<Rightarrow> string \<Rightarrow> nat \<Rightarrow> int \<Rightarrow> int \<Rightarrow> submit_error + (string \<rightharpoonup> Session)" where
  "submit reg sid uid qi sel receivedAt =
     (case reg sid of
        None \<Rightarrow> Inl SessionNotFound
      | Some s \<Rightarrow>
          if uid \<noteq> p_userId (s_player1 s) \<and> uid \<noteq> p_userId (s_player2 s) then Inl SessionNotFound
          else if qi \<noteq> s_questionIndex s then Inl StaleQuestion
          else if state s \<noteq> ACTIVE qi \<or> receivedAt > perQuestionDeadline s then Inl LateAnswer
          else if recordOf s qi uid \<noteq> None then Inl AlreadyAnswered
          else Inr (reg(sid \<mapsto>
                 s\<lparr>records := records s @
                      [\<lparr>ar_sessionId = s_id s, ar_questionIndex = qi, ar_userId = uid,
                        ar_selectedIndex = sel, correct = isCorrect s qi sel,
                        answeredAt = receivedAt\<rparr>],
                   answeredThisQuestion := answeredThisQuestion s @ [uid]\<rparr>)))"

text \<open>
  Modelled from the spec: the (sessionId, questionIndex, userId) key of an AnswerRecord
  (section 3).
\<close>

definition recordKey :: "AnswerRecord \<Rightarrow> string \<times> nat \<times> string" where
  "recordKey a = (ar_sessionId a, ar_questionIndex a, ar_userId a)"

text \<open>
  Modelled from the spec: the records of a session hold at most one AnswerRecord per
  (session, question, user) key (sections 3 and 8).
\<close>

definition oneRecordPerKey :: "Session \<Rightarrow> bool" where
  "oneRecordPerKey s = distinct (map recordKey (records s))"

text \<open>
  Modelled from the spec: one question round of a duel as one player sees it: the
  deadline, the correct index and the player's accepted answer (selected index and time
  of the answer), if any.
\<close>

record Round =
  rd_deadline :: int
  rd_correctIndex :: int
  rd_answer :: "(int \<times> int) option"

text \<open>Modelled from the spec: the award of section 4.2 for one round.\<close>

definition roundAward :: "Round \<Rightarrow> int" where
  "roundAward rd =
     (case rd_answer rd of
        None \<Rightarrow> 0
      | Some (sel, answered) \<Rightarrow> award (sel = rd_correctIndex rd) (rd_deadline rd) answered)"

text \<open>
  Modelled from the spec: a player's score over a duel, the sum of the per-question awards
  (section 8).
\<close>

definition duelTotal :: "Round list \<Rightarrow> int" where
  "duelTotal rds = sum_list (map roundAward rds)"

section \<open>Concrete inputs\<close>

definition exampleUser :: User where
  "exampleUser = \<lparr>u_id = ''u1'', username = ''alice'', rating = 1200\<rparr>"

definition exampleQuestion :: Question where
  "exampleQuestion = \<lparr>q_prompt = ''2 + 2'', q_options = [''1'', ''3'', ''4'', ''5''],
                        correctIndex = 2, explanation = ''arithmetic''\<rparr>"

definition exampleSession :: Session where
  "exampleSession =
     \<lparr>s_id = ''d1'', state = ACTIVE 0, s_questionIndex = 0,
      questions = replicate 10 exampleQuestion,
      s_player1 = \<lparr>p_userId = ''u1'', score = 0\<rparr>,
      s_player2 = \<lparr>p_userId = ''u2'', score = 0\<rparr>,
      perQuestionDeadline = 9000, answeredThisQuestion = [], records = []\<rparr>"

definition exampleRecord :: AnswerRecord where
  "exampleRecord = \<lparr>ar_sessionId = ''d1'', ar_questionIndex = 0, ar_userId = ''u1'',
                      ar_selectedIndex = 2, correct = True, answeredAt = 2000\<rparr>"

definition exampleRound :: Round where
  "exampleRound = \<lparr>rd_deadline = 9000, rd_correctIndex = 2, rd_answer = Some (2, 0)\<rparr>"


definition exampleOpponent :: Opponent where
  "exampleOpponent = \<lparr>o_id = ''u2'', o_username = ''bob''\<rparr>"

definition exampleDuelEnd :: duel_end where
  "exampleDuelEnd = \<lparr>de_duelId = ''d1'', de_winnerId = Undefined,
                       de_finalScores = \<lparr>player1 = 57, player2 = 57\<rparr>, de_duration = 90\<rparr>"


text \<open>
  JavaScript's date parsing on the one string the examples give it, the instant 9000 ms
  after the epoch. It is applied to no other string.
\<close>

definition exampleParse :: "string \<Rightarrow> int option" where
  "exampleParse s = (if s = ''1970-01-01T00:00:09.000Z'' then Some 9000 else None)"

definition exampleQuestionStart :: question_start where
  "exampleQuestionStart =
     \<lparr>qs_questionIndex = 0,
      qs_question = \<lparr>prompt = ''2 + 2'', options = [''1'', ''3'', ''4'', ''5'']\<rparr>,
      qs_deadline = DeadlineString ''1970-01-01T00:00:09.000'', qs_timeLimit = Some 9\<rparr>"

definition exampleTicket :: MatchmakingTicket where
  "exampleTicket = \<lparr>tk_id = ''t1'', tk_userId = ''u1'', tk_topic = ''python''\<rparr>"

text \<open>Two requests made with an expired access token, and the module's initial state.\<close>

definition requestA :: Request where
  "requestA = \<lparr>rid = 1, retry = False, authorization = Some ''Bearer old''\<rparr>"

definition requestB :: Request where
  "requestB = \<lparr>rid = 2, retry = False, authorization = Some ''Bearer old''\<rparr>"

definition exampleInterceptor :: interceptor_state where
  "exampleInterceptor =
     \<lparr>isRefreshing = False, failedQueue = [], awaiting = None,
      localStorage = [''codeduel_refresh_token'' \<mapsto> ''r1''],
      href = ''/topics'', defaultAuthorization = Some ''Bearer old''\<rparr>"


text \<open>
  Runs of a DuelScreen mounted for duel d1 with a connected socket, the timeouts running
  on time. In \<open>unansweredRun q\<close>, \<open>question_start\<close> for question \<open>q\<close> arrives at
  client time 0 with the deadline 9000 and the player never answers. In \<open>answeredRun\<close>,
  \<open>question_start\<close> for question 0 arrives at 0 with the same deadline, the player
  clicks option 2 at 2050, and \<open>later\<close> is what happens after that.
\<close>

definition unansweredRun :: "int \<Rightarrow> duel_component \<times> duel_effect list" where
  "unansweredRun q =
     duel_run exampleParse
       (duel_mount (Some exampleUser) (Some ''d1'') (Some exampleOpponent) True True)
       (QuestionStart (exampleQuestionStart\<lparr>qs_questionIndex := q\<rparr>) 0
        # replicate 90 TimeoutFires)"

definition answeredRun :: "duel_event list \<Rightarrow> duel_component \<times> duel_effect list" where
  "answeredRun later =
     duel_run exampleParse
       (duel_mount (Some exampleUser) (Some ''d1'') (Some exampleOpponent) True True)
       (QuestionStart exampleQuestionStart 0 # replicate 20 TimeoutFires
        @ [ClickOption 2 2050] @ later)"

section \<open>Topic selection: properties\<close>

lemma set_toggleTopic:
  "set (toggleTopic t s) = (if t \<in> set s then set s - {t} else insert t (set s))"
  by (auto simp: toggleTopic_def)

text \<open>
  C7. Starting a duel with a non-empty selection has one navigation, to matchmaking with
  exactly the first element of the selection list; toggling any other topic, in or out of
  the selection, never changes which topic that is, so it is the earliest selected of the
  topics still selected. With an empty selection the only effect is the alert: nothing
  navigates to matchmaking.
\<close>

theorem startDuel_resolves_first_topic:
  "startDuel (t # ts) = [SetIsLoading True, NavigateMatchmaking t]
   \<and> (u \<noteq> t \<longrightarrow> startDuel (toggleTopic u (t # ts)) = startDuel (t # ts))
   \<and> startDuel [] = [Alert ''Please select at least one topic'']
   \<and> (\<forall>v. NavigateMatchmaking v \<notin> set (startDuel []))"
  by (auto simp: startDuel_def toggleTopic_def)

theorem startDuel_resolves_first_topic_witness:
  "startDuel [''python'', ''react''] = [SetIsLoading True, NavigateMatchmaking ''python'']
   \<and> ''react'' \<noteq> ''python''
   \<and> startDuel (toggleTopic ''react'' [''python'', ''react'']) = startDuel [''python'', ''react'']
   \<and> ''databases'' \<noteq> ''python''
   \<and> startDuel (toggleTopic ''databases'' [''python'', ''react''])
       = startDuel [''python'', ''react'']"
  using startDuel_resolves_first_topic [of "''python''" "[''react'']" "''react''"]
        startDuel_resolves_first_topic [of "''python''" "[''react'']" "''databases''"]
  by simp

text \<open>
  C8. toggleTopic flips the membership of the toggled topic and of no other topic, and
  toggling the same topic twice gives back the original membership set.
\<close>

theorem toggleTopic_flips_membership:
  "(u \<in> set (toggleTopic t s)) = (if u = t then t \<notin> set s else u \<in> set s)
   \<and> set (toggleTopic t (toggleTopic t s)) = set s"
  by (auto simp: set_toggleTopic)

section \<open>Scoring: properties\<close>

lemma floor_seconds_int:
  "\<lfloor>secondsRemainingAtAnswerTime deadline t\<rfloor> = max 0 ((deadline - t) div 1000)"
proof (cases "deadline - t < 0")
  case True
  then have "real_of_int (deadline - t) / 1000 \<le> 0" by simp
  then have "secondsRemainingAtAnswerTime deadline t = 0"
    unfolding secondsRemainingAtAnswerTime_def by (simp add: max_def)
  moreover from True have "(deadline - t) div 1000 < 0" by simp
  ultimately show ?thesis by simp
next
  case False
  then have nonneg: "0 \<le> real_of_int (deadline - t) / 1000" by simp
  have "\<lfloor>secondsRemainingAtAnswerTime deadline t\<rfloor> = \<lfloor>real_of_int (deadline - t) / 1000\<rfloor>"
    unfolding secondsRemainingAtAnswerTime_def using nonneg by (simp only: max_absorb2)
  also have "\<dots> = (deadline - t) div 1000"
    using floor_divide_of_int_eq[of "deadline - t" 1000, where ?'a = real] by simp
  also have "\<dots> = max 0 ((deadline - t) div 1000)"
    using False by simp
  finally show ?thesis .
qed

lemma award_int: "award ok deadline t = (if ok then 10 + max 0 ((deadline - t) div 1000) else 0)"
  by (simp add: award_def award_with_def floor_seconds_int)

lemma roundAward_le:
  assumes "\<And>sel t. rd_answer rd = Some (sel, t) \<Longrightarrow> rd_deadline rd - 9000 \<le> t"
  shows "roundAward rd \<le> 19"
proof (cases "rd_answer rd")
  case None
  then show ?thesis by (simp add: roundAward_def)
next
  case (Some a)
  obtain sel t where a: "a = (sel, t)" by (cases a)
  with Some assms have "rd_deadline rd - t \<le> 9000" by fastforce
  then have "(rd_deadline rd - t) div 1000 \<le> 9" by simp
  with Some a show ?thesis by (simp add: roundAward_def award_int)
qed

lemma sum_list_bounded:
  "(\<And>x. x \<in> set xs \<Longrightarrow> f x \<le> (c::int)) \<Longrightarrow> sum_list (map f xs) \<le> c * int (length xs)"
  by (induction xs) (auto simp: algebra_simps intro: add_mono)

lemma duelTotal_le:
  assumes "length rds = 10"
    and "\<forall>rd \<in> set rds. \<forall>sel t. rd_answer rd = Some (sel, t) \<longrightarrow> rd_deadline rd - 9000 \<le> t"
  shows "duelTotal rds \<le> 190"
proof -
  have "sum_list (map roundAward rds) \<le> 19 * int (length rds)"
    using assms(2) by (intro sum_list_bounded roundAward_le) blast
  with assms(1) show ?thesis by (simp add: duelTotal_def)
qed

lemma duelTotal_best:
  "duelTotal (replicate 10 \<lparr>rd_deadline = T + 9000, rd_correctIndex = c, rd_answer = Some (c, T)\<rparr>) = 190"
  by (simp add: duelTotal_def roundAward_def award_int sum_list_replicate)

lemma accuracy_full: "accuracy (Some 190) = 100"
  by (simp add: accuracy_def or_default_def)

lemma grade_player1:
  assumes "state s = ACTIVE q"
  shows "score (s_player1 (grade s)) = score (s_player1 s) + pointsFor s q (p_userId (s_player1 s))"
  using assms by (simp add: grade_def)

lemma grade_player2:
  assumes "state s = ACTIVE q"
  shows "score (s_player2 (grade s)) = score (s_player2 s) + pointsFor s q (p_userId (s_player2 s))"
  using assms by (simp add: grade_def)

text \<open>
  C1. A correct answer is awarded the base of 10 plus one point per whole second left at
  the time of the answer, \<open>floor(max(0, (deadline - answeredAt) / 1000))\<close>; answered 2000
  ms into a question whose deadline is 9000 ms after its start it is worth 17. At the
  grading of a question this is what the player's score grows by. Over ten questions of 9
  seconds each, with no answer recorded earlier than the start of its question, a total is
  at most 190, and ten correct answers at the start of each question reach 190; the
  results screen takes 190 as its 100 percent.
\<close>

theorem correct_answer_award:
  "award True deadline t = 10 + max 0 ((deadline - t) div 1000)
   \<and> award True (T + 9000) (T + 2000) = 17
   \<and> (state s = ACTIVE q \<and> recordOf s q (p_userId (s_player1 s)) = Some a
        \<and> isCorrect s q (ar_selectedIndex a)
      \<longrightarrow> score (s_player1 (grade s))
          = score (s_player1 s) + 10 + max 0 ((perQuestionDeadline s - answeredAt a) div 1000))
   \<and> (state s = ACTIVE q \<and> recordOf s q (p_userId (s_player2 s)) = Some b
        \<and> isCorrect s q (ar_selectedIndex b)
      \<longrightarrow> score (s_player2 (grade s))
          = score (s_player2 s) + 10 + max 0 ((perQuestionDeadline s - answeredAt b) div 1000))
   \<and> (length rds = 10
        \<and> (\<forall>rd \<in> set rds. \<forall>sel t. rd_answer rd = Some (sel, t) \<longrightarrow> rd_deadline rd - 9000 \<le> t)
      \<longrightarrow> duelTotal rds \<le> 190)
   \<and> duelTotal (replicate 10 \<lparr>rd_deadline = T + 9000, rd_correctIndex = c,
                               rd_answer = Some (c, T)\<rparr>) = 190
   \<and> accuracy (Some 190) = 100"
proof (intro conjI impI)
  show "award True deadline t = 10 + max 0 ((deadline - t) div 1000)"
    by (simp add: award_int)
  show "award True (T + 9000) (T + 2000) = 17"
    by (simp add: award_int)
  show "duelTotal (replicate 10 \<lparr>rd_deadline = T + 9000, rd_correctIndex = c,
                               rd_answer = Some (c, T)\<rparr>) = 190"
    by (rule duelTotal_best)
  show "accuracy (Some 190) = 100"
    by (rule accuracy_full)
next
  assume "length rds = 10
        \<and> (\<forall>rd \<in> set rds. \<forall>sel t. rd_answer rd = Some (sel, t) \<longrightarrow> rd_deadline rd - 9000 \<le> t)"
  then show "duelTotal rds \<le> 190" by (simp add: duelTotal_le)
next
  assume h: "state s = ACTIVE q \<and> recordOf s q (p_userId (s_player1 s)) = Some a
        \<and> isCorrect s q (ar_selectedIndex a)"
  then have "pointsFor s q (p_userId (s_player1 s))
             = 10 + max 0 ((perQuestionDeadline s - answeredAt a) div 1000)"
    by (simp add: pointsFor_def award_int)
  with h show "score (s_player1 (grade s))
          = score (s_player1 s) + 10 + max 0 ((perQuestionDeadline s - answeredAt a) div 1000)"
    by (simp add: grade_player1)
next
  assume h: "state s = ACTIVE q \<and> recordOf s q (p_userId (s_player2 s)) = Some b
        \<and> isCorrect s q (ar_selectedIndex b)"
  then have "pointsFor s q (p_userId (s_player2 s))
             = 10 + max 0 ((perQuestionDeadline s - answeredAt b) div 1000)"
    by (simp add: pointsFor_def award_int)
  with h show "score (s_player2 (grade s))
          = score (s_player2 s) + 10 + max 0 ((perQuestionDeadline s - answeredAt b) div 1000)"
    by (simp add: grade_player2)
qed

theorem correct_answer_award_witness:
  "state (exampleSession\<lparr>records := [exampleRecord, exampleRecord\<lparr>ar_userId := ''u2'', answeredAt := 5000\<rparr>]\<rparr>)
     = ACTIVE 0
   \<and> recordOf (exampleSession\<lparr>records := [exampleRecord, exampleRecord\<lparr>ar_userId := ''u2'', answeredAt := 5000\<rparr>]\<rparr>)
        0 ''u1'' = Some exampleRecord
   \<and> recordOf (exampleSession\<lparr>records := [exampleRecord, exampleRecord\<lparr>ar_userId := ''u2'', answeredAt := 5000\<rparr>]\<rparr>)
        0 ''u2'' = Some (exampleRecord\<lparr>ar_userId := ''u2'', answeredAt := 5000\<rparr>)
   \<and> isCorrect (exampleSession\<lparr>records := [exampleRecord, exampleRecord\<lparr>ar_userId := ''u2'', answeredAt := 5000\<rparr>]\<rparr>)
        0 2
   \<and> score (s_player1 (grade (exampleSession\<lparr>records := [exampleRecord, exampleRecord\<lparr>ar_userId := ''u2'', answeredAt := 5000\<rparr>]\<rparr>)))
     = 17
   \<and> score (s_player2 (grade (exampleSession\<lparr>records := [exampleRecord, exampleRecord\<lparr>ar_userId := ''u2'', answeredAt := 5000\<rparr>]\<rparr>)))
     = 14
   \<and> length (replicate 10 exampleRound) = 10
   \<and> duelTotal (replicate 10 exampleRound) \<le> 190"
  using correct_answer_award
          [of _ _ _ "exampleSession\<lparr>records := [exampleRecord, exampleRecord\<lparr>ar_userId := ''u2'', answeredAt := 5000\<rparr>]\<rparr>"
              0 exampleRecord "exampleRecord\<lparr>ar_userId := ''u2'', answeredAt := 5000\<rparr>"
              "replicate 10 exampleRound"]
  by (simp add: exampleSession_def exampleRecord_def exampleRound_def exampleQuestion_def
        recordOf_def isCorrect_def)

section \<open>DuelScreen: properties\<close>

text \<open>
  C5. The handler of \<open>duel_reconnected\<close> uses nothing but the snapshot it is given: its
  effects are the same in every render, and after them the displayed scores are the
  snapshot's scores and the question index is the snapshot's \<open>currentQuestion\<close>, for 4 as
  well as for 0.
\<close>

theorem handleDuelReconnected_resumes_from_snapshot:
  "handleDuelReconnected data
     = [SetScores (dr_scores data), SetQuestionIndex (dr_currentQuestion data)]
   \<and> scores (rerender r (handleDuelReconnected data)) = dr_scores data
   \<and> questionIndex (rerender r (handleDuelReconnected data)) = dr_currentQuestion data
   \<and> questionIndex (rerender r (handleDuelReconnected (data\<lparr>dr_currentQuestion := 4\<rparr>))) = 4
   \<and> questionIndex (rerender r (handleDuelReconnected (data\<lparr>dr_currentQuestion := 0\<rparr>))) = 0"
  by (simp add: handleDuelReconnected_def rerender_def or_default_def)

section \<open>ResultsScreen: properties\<close>

lemma headline_after_duel_end:
  "map headlineOf (resultsShown usr (handleDuelEnd (Some opp) tp e))
     = [Some (resultHeadline (de_winnerId e) usr)]"
  by (simp add: handleDuelEnd_def ResultsScreen_def)

text \<open>
  C6. After a \<open>duel_end\<close> event the results screen of a logged-in user shows the headline
  computed from the event's \<open>winnerId\<close> and the user: a tie when the event carries no
  \<open>winnerId\<close> (absent or null), Victory when \<open>winnerId\<close> is the user's id. The headline
  is defined for every \<open>winnerId\<close> and user, and depends on the user only through the id.
\<close>

theorem results_headline:
  "map headlineOf (resultsShown (Some u) (handleDuelEnd (Some opp) tp e))
     = [Some (resultHeadline (de_winnerId e) (Some u))]
   \<and> resultHeadline Undefined (Some u) = TieGame
   \<and> resultHeadline Null (Some u) = TieGame
   \<and> resultHeadline (Str (u_id u)) (Some u) = Victory
   \<and> (u_id u = u_id u' \<longrightarrow> resultHeadline w (Some u) = resultHeadline w (Some u'))
   \<and> resultHeadline w (Some u) = (if w = Str (u_id u) then Victory
                                   else if w = Undefined \<or> w = Null \<or> w = Str [] then TieGame
                                   else Defeat)"
  by (auto simp: headline_after_duel_end resultHeadline_def isWinner_def isTie_def)

theorem results_headline_witness:
  "map headlineOf (resultsShown (Some exampleUser) (handleDuelEnd (Some exampleOpponent) (Some ''python'') exampleDuelEnd))
     = [Some TieGame]
   \<and> u_id exampleUser = u_id (exampleUser\<lparr>rating := 1300\<rparr>)
   \<and> resultHeadline (Str ''u1'') (Some exampleUser) = resultHeadline (Str ''u1'') (Some (exampleUser\<lparr>rating := 1300\<rparr>))
   \<and> resultHeadline (Str ''u1'') (Some exampleUser) = Victory
   \<and> resultHeadline (Str ''u2'') (Some exampleUser) = Defeat
   \<and> resultHeadline Null (Some exampleUser) = TieGame"
  using results_headline [of exampleUser exampleOpponent "Some ''python''" exampleDuelEnd
          "exampleUser\<lparr>rating := 1300\<rparr>" "Str ''u1''"]
        results_headline [of exampleUser exampleOpponent "Some ''python''" exampleDuelEnd
          "exampleUser\<lparr>rating := 1300\<rparr>" "Str ''u2''"]
  by (simp add: exampleUser_def exampleDuelEnd_def resultHeadline_def isWinner_def isTie_def)

section \<open>The countdown: properties\<close>









text \<open>
  A deadline that is a number, or a string that is not a date once it ends in \<open>Z\<close>, ends
  the handler in an exception after the question state is reset: no timer is set and the
  displayed time is left as it was.
\<close>

lemma unparsed_deadline:
  assumes "qs_deadline data = DeadlineNumber n \<and> n \<noteq> 0
           \<or> qs_deadline data = DeadlineString s \<and> s \<noteq> []
              \<and> parse (if endsWithZ s then s else s @ ''Z'') = None"
  shows "\<exists>e. handleQuestionStart parse r data now
           = [ClearQuestionTimer, SetCurrentQuestion (Some (qs_question data)),
              SetQuestionIndex (qs_questionIndex data), SetSelectedAnswer None,
              SetHasAnswered False, SetShowResult False, SetIsWaitingForNext False,
              Uncaught e]"
    and "countdownEnd parse data now = None"
    and "timeLeft (rerender r' (handleQuestionStart parse r data now)) = timeLeft r'"
  using assms
  by (auto simp: handleQuestionStart_def countdownEnd_def truthy_deadline_def
        parseServerTime_def rerender_def)





section \<open>DuelScreen: the timeout callback and the answer state\<close>

text \<open>
  C2 on concrete runs. When \<open>question_start\<close> for question 0 arrives and the player does
  not answer, the one answer the client sends, once the countdown has run out, has
  \<open>selectedIndex = -1\<close> and names question 0. When \<open>question_start\<close> for question 3
  arrives and the player does not answer, the screen shows question 3, but the handler and
  the timers it sets are those of the first render, whose \<open>questionIndex\<close> is 0: the one
  answer the client sends is the same message, naming question 0 and not the question
  whose deadline passed. No timeout is left pending after it.
\<close>

theorem timeout_answer_names_question_of_first_render:
  "questionIndex (shown (fst (unansweredRun 0))) = 0
   \<and> answersOf (snd (unansweredRun 0))
       = [\<lparr>a_duelId = Some ''d1'', a_questionIndex = 0, selectedIndex = - 1, clientTs = 9000\<rparr>]
   \<and> questionIndex (shown (fst (unansweredRun 3))) = 3
   \<and> answersOf (snd (unansweredRun 3))
       = [\<lparr>a_duelId = Some ''d1'', a_questionIndex = 0, selectedIndex = - 1, clientTs = 9000\<rparr>]
   \<and> timeouts (fst (unansweredRun 3)) = []"
  unfolding unansweredRun_def by code_simp

text \<open>
  The guard of \<open>submitAnswer\<close>, in the render whose values it reads: once that render
  has \<open>hasAnswered\<close> true or no time left, the call has no effect at all.
\<close>

lemma submitAnswer_guard:
  "hasAnswered r \<or> timeLeft r \<le> 0 \<Longrightarrow> submitAnswer r optionIndex now = []"
  by (simp add: submitAnswer_def)

text \<open>
  C3 on a concrete run. The player answers question 0 with option 2 at 2050: the answer
  is sent, \<open>hasAnswered\<close> is true and option 2 is the selected answer. A second click, on
  option 1 at 2060, sends nothing and changes nothing. But when the countdown has run
  out at 9000, the timeout callback, which reads the \<open>hasAnswered\<close> and \<open>timeLeft\<close> of
  the first render, calls \<open>submitAnswer(-1)\<close> and that call sends a second answer for the
  question and replaces the selected answer by -1.
\<close>

theorem timeout_submits_after_answer:
  "hasAnswered (shown (fst (answeredRun [])))
   \<and> selectedAnswer (shown (fst (answeredRun []))) = Some 2
   \<and> answersOf (snd (answeredRun []))
       = [\<lparr>a_duelId = Some ''d1'', a_questionIndex = 0, selectedIndex = 2, clientTs = 2050\<rparr>]
   \<and> answersOf (snd (answeredRun [ClickOption 1 2060]))
       = [\<lparr>a_duelId = Some ''d1'', a_questionIndex = 0, selectedIndex = 2, clientTs = 2050\<rparr>]
   \<and> selectedAnswer (shown (fst (answeredRun [ClickOption 1 2060]))) = Some 2
   \<and> answersOf (snd (answeredRun (replicate 70 TimeoutFires)))
       = [\<lparr>a_duelId = Some ''d1'', a_questionIndex = 0, selectedIndex = 2, clientTs = 2050\<rparr>,
          \<lparr>a_duelId = Some ''d1'', a_questionIndex = 0, selectedIndex = - 1, clientTs = 9000\<rparr>]
   \<and> selectedAnswer (shown (fst (answeredRun (replicate 70 TimeoutFires)))) = Some (- 1)
   \<and> timeouts (fst (answeredRun (replicate 70 TimeoutFires))) = []"
  unfolding answeredRun_def by code_simp

section \<open>The spec's AnswerProcessor: properties\<close>

text \<open>
  What the \<open>submit\<close> of the spec does with the answers above: a submission with
  \<open>selectedIndex = -1\<close> that is accepted is recorded as not correct and earns 0 points,
  as does a player with no record; a key that has a record is never given a second one,
  and a duplicate made right after the accepted submit is reported as AlreadyAnswered
  when it is received by the deadline and as LateAnswer after it.
\<close>

lemma find_snoc:
  "find P (xs @ [x]) = (case find P xs of Some y \<Rightarrow> Some y | None \<Rightarrow> if P x then Some x else None)"
  by (induction xs) simp_all

lemma submit_Inr:
  assumes "submit reg sid uid q sel t = Inr reg'"
  obtains s where "reg sid = Some s" "recordOf s q uid = None" "state s = ACTIVE q"
    "t \<le> perQuestionDeadline s" "q = s_questionIndex s"
    "uid = p_userId (s_player1 s) \<or> uid = p_userId (s_player2 s)"
    "reg' = reg(sid \<mapsto> s\<lparr>records := records s @
                      [\<lparr>ar_sessionId = s_id s, ar_questionIndex = q, ar_userId = uid,
                        ar_selectedIndex = sel, correct = isCorrect s q sel,
                        answeredAt = t\<rparr>],
                   answeredThisQuestion := answeredThisQuestion s @ [uid]\<rparr>)"
  using assms by (auto simp: submit_def split: option.splits if_splits)

lemma recordOf_recorded:
  assumes "recordOf s q uid = None"
  shows "recordOf (s\<lparr>records := records s @
                      [\<lparr>ar_sessionId = s_id s, ar_questionIndex = q, ar_userId = uid,
                        ar_selectedIndex = sel, correct = c, answeredAt = t\<rparr>],
                   answeredThisQuestion := ans\<rparr>) q uid
         = Some \<lparr>ar_sessionId = s_id s, ar_questionIndex = q, ar_userId = uid,
                 ar_selectedIndex = sel, correct = c, answeredAt = t\<rparr>"
  using assms by (simp add: recordOf_def find_snoc)

lemma isCorrect_records [simp]:
  "isCorrect (s\<lparr>records := rs, answeredThisQuestion := ans\<rparr>) q sel = isCorrect s q sel"
  by (simp add: isCorrect_def)

lemma no_answer_incorrect:
  "(q < length (questions s) \<longrightarrow> 0 \<le> correctIndex (questions s ! q)) \<Longrightarrow> \<not> isCorrect s q (- 1)"
  by (auto simp: isCorrect_def)

lemma award_incorrect: "award False deadline t = 0"
  by (simp add: award_def award_with_def)

lemma no_answer_scores_zero:
  assumes "submit reg sid uid q (- 1) t = Inr reg'" and "reg sid = Some s"
    and "0 \<le> correctIndex (questions s ! q)"
  shows "\<exists>s'. reg' sid = Some s' \<and> map_option correct (recordOf s' q uid) = Some False
              \<and> pointsFor s' q uid = 0"
proof -
  from assms(1) obtain s0 where s0: "reg sid = Some s0" "recordOf s0 q uid = None"
    and reg': "reg' = reg(sid \<mapsto> s0\<lparr>records := records s0 @
                      [\<lparr>ar_sessionId = s_id s0, ar_questionIndex = q, ar_userId = uid,
                        ar_selectedIndex = - 1, correct = isCorrect s0 q (- 1),
                        answeredAt = t\<rparr>],
                   answeredThisQuestion := answeredThisQuestion s0 @ [uid]\<rparr>)"
    by (rule submit_Inr)
  from s0 assms(2) have [simp]: "s0 = s" by simp
  have wrong: "\<not> isCorrect s q (- 1)"
    using assms(3) by (intro no_answer_incorrect) simp
  let ?s' = "s\<lparr>records := records s @
                      [\<lparr>ar_sessionId = s_id s, ar_questionIndex = q, ar_userId = uid,
                        ar_selectedIndex = - 1, correct = isCorrect s q (- 1),
                        answeredAt = t\<rparr>],
                   answeredThisQuestion := answeredThisQuestion s @ [uid]\<rparr>"
  have r: "recordOf ?s' q uid = Some \<lparr>ar_sessionId = s_id s, ar_questionIndex = q, ar_userId = uid,
                        ar_selectedIndex = - 1, correct = isCorrect s q (- 1),
                        answeredAt = t\<rparr>"
    using s0(2) by (simp add: recordOf_recorded)
  have "reg' sid = Some ?s'" using reg' by simp
  moreover have "map_option correct (recordOf ?s' q uid) = Some False"
    using r wrong by simp
  moreover have "pointsFor ?s' q uid = 0"
    unfolding pointsFor_def r using wrong by (simp add: award_incorrect)
  ultimately show ?thesis by blast
qed

lemma no_record_scores_zero: "recordOf s q uid = None \<Longrightarrow> pointsFor s q uid = 0"
  by (simp add: pointsFor_def)

lemma recordOf_None_key:
  "recordOf s q uid = None \<Longrightarrow> (s_id s, q, uid) \<notin> set (map recordKey (records s))"
  by (auto simp: recordOf_def find_None_iff recordKey_def)

lemma submit_keeps_oneRecordPerKey:
  assumes "submit reg sid uid q sel t = Inr reg'" and "reg sid = Some s" and "oneRecordPerKey s"
  shows "\<exists>s'. reg' sid = Some s' \<and> oneRecordPerKey s'
              \<and> length (records s') = Suc (length (records s))"
proof -
  from assms(1) obtain s0 where s0: "reg sid = Some s0" "recordOf s0 q uid = None"
    and reg': "reg' = reg(sid \<mapsto> s0\<lparr>records := records s0 @
                      [\<lparr>ar_sessionId = s_id s0, ar_questionIndex = q, ar_userId = uid,
                        ar_selectedIndex = sel, correct = isCorrect s0 q sel,
                        answeredAt = t\<rparr>],
                   answeredThisQuestion := answeredThisQuestion s0 @ [uid]\<rparr>)"
    by (rule submit_Inr)
  from s0 assms(2) have [simp]: "s0 = s" by simp
  from s0(2) have "(s_id s, q, uid) \<notin> set (map recordKey (records s))"
    using recordOf_None_key by simp
  with assms(3) reg' show ?thesis
    by (simp add: oneRecordPerKey_def recordKey_def)
qed

lemma second_submit:
  assumes "submit reg sid uid q sel t = Inr reg'" and "reg sid = Some s"
  shows "submit reg' sid uid q sel' t'
           = (if perQuestionDeadline s < t' then Inl LateAnswer else Inl AlreadyAnswered)"
proof -
  from assms(1) obtain s0 where s0: "reg sid = Some s0" "recordOf s0 q uid = None"
      "state s0 = ACTIVE q" "q = s_questionIndex s0"
      "uid = p_userId (s_player1 s0) \<or> uid = p_userId (s_player2 s0)"
    and reg': "reg' = reg(sid \<mapsto> s0\<lparr>records := records s0 @
                      [\<lparr>ar_sessionId = s_id s0, ar_questionIndex = q, ar_userId = uid,
                        ar_selectedIndex = sel, correct = isCorrect s0 q sel,
                        answeredAt = t\<rparr>],
                   answeredThisQuestion := answeredThisQuestion s0 @ [uid]\<rparr>)"
    by (rule submit_Inr)
  from s0 assms(2) have eq: "s0 = s" by simp
  let ?s' = "s\<lparr>records := records s @
                      [\<lparr>ar_sessionId = s_id s, ar_questionIndex = q, ar_userId = uid,
                        ar_selectedIndex = sel, correct = isCorrect s q sel,
                        answeredAt = t\<rparr>],
                   answeredThisQuestion := answeredThisQuestion s @ [uid]\<rparr>"
  have r: "recordOf ?s' q uid \<noteq> None"
    using s0(2) eq by (simp add: recordOf_recorded)
  have look: "reg' sid = Some ?s'" using reg' eq by simp
  show ?thesis
    unfolding submit_def look using r s0(3,4,5) eq by auto
qed

lemma recorded_key_rejected:
  assumes "reg sid = Some s" and "recordOf s q uid \<noteq> None"
  shows "\<exists>e. submit reg sid uid q sel t = Inl e"
  using assms by (auto simp: submit_def)

section \<open>MatchmakingScreen: a held ticket at exit\<close>

lemma emitted_append: "emitted (es @ fs) = emitted es @ emitted fs"
  by (induction es rule: emitted.induct) simp_all

lemma installed_after_mount:
  "installed (fst (mm_mount u sock t)) = Some r \<Longrightarrow> ticket r = None"
  by (auto simp: mm_mount_def mm_effect_body_def Let_def split: if_splits prod.splits)

lemma installed_after_step:
  assumes "\<And>r. installed c = Some r \<Longrightarrow> ticket r = None"
    and "installed (fst (mm_step c ev)) = Some r"
  shows "ticket r = None"
  using assms by (cases ev) (auto simp: mm_dispatch_def split: if_splits)

lemma step_without_cancel:
  assumes "\<And>r. installed c = Some r \<Longrightarrow> ticket r = None" and "ev \<noteq> ClickCancel"
  shows "cancel_queue k \<notin> set (emitted (snd (mm_step c ev)))"
  using assms
  by (cases ev)
     (auto simp: mm_dispatch_def handleQueueJoined_def handleMatched_def handleError_def
        mm_cleanup_def split: if_splits option.splits)

lemma run_without_cancel:
  assumes "\<And>r. installed c = Some r \<Longrightarrow> ticket r = None" and "ClickCancel \<notin> set evs"
    and "cancel_queue k \<notin> set (emitted es)"
  shows "cancel_queue k \<notin> set (emitted (snd (mm_run (c, es) evs)))"
  using assms
proof (induction evs arbitrary: c es)
  case Nil
  then show ?case by simp
next
  case (Cons ev evs)
  obtain c' es' where st: "mm_step c ev = (c', es')" by (cases "mm_step c ev")
  have inv: "\<And>r. installed c' = Some r \<Longrightarrow> ticket r = None"
    using installed_after_step[of c ev] Cons.prems(1) st by simp
  have "cancel_queue k \<notin> set (emitted es')"
    using step_without_cancel[of c ev k] Cons.prems(1,2) st by auto
  with Cons.prems(3) have "cancel_queue k \<notin> set (emitted (es @ es'))"
    by (simp add: emitted_append)
  with Cons.IH[of c' "es @ es'"] inv Cons.prems(2) show ?case
    by (simp add: st)
qed

text \<open>
  Whatever the user, the socket and the topic, and whatever events arrive: as long as the
  cancel button is not pressed, no \<open>cancel_queue\<close> is ever sent, the unmount included.
\<close>

lemma only_the_button_cancels:
  assumes "ClickCancel \<notin> set evs"
  shows "cancel_queue k \<notin> set (emitted (snd (mm_run (mm_mount u sock t) evs)))"
proof -
  obtain c es where m: "mm_mount u sock t = (c, es)" by (cases "mm_mount u sock t")
  have inv: "\<And>r. installed c = Some r \<Longrightarrow> ticket r = None"
    using installed_after_mount[of u sock t] m by simp
  have "cancel_queue k \<notin> set (emitted es)"
    using m by (auto simp: mm_mount_def mm_effect_body_def startMatchmaking_def emit_def Let_def
                  split: if_splits option.splits)
  with run_without_cancel[OF inv assms] show ?thesis by (simp add: m)
qed

lemma mount_example:
  "mm_mount (Some exampleUser) True (Some ''python'')
     = (\<lparr>current = \<lparr>user = Some exampleUser, socket = True, topic = Some ''python'',
                      ticket = None, isSearching = True\<rparr>,
         installed = Some \<lparr>user = Some exampleUser, socket = True, topic = Some ''python'',
                             ticket = None, isSearching = False\<rparr>,
         mounted = True\<rparr>,
        [SetIsSearching True, Emit (join_queue ''u1'' (Some ''python''))])"
  by (simp add: mm_mount_def mm_effect_body_def startMatchmaking_def emit_def falsy_str_def
        exampleUser_def)

text \<open>
  C9 on a concrete run. A logged-in user mounts the matchmaking screen for topic python
  with a live socket and joins the queue; \<open>queue_joined\<close> delivers ticket t1, which the
  screen then holds. Unmounting the screen now runs the cleanup of the effect of the first
  render, whose \<open>ticket\<close> is still null: no \<open>cancel_queue\<close> is sent, and the only message
  of the whole run is the \<open>join_queue\<close>. Pressing cancel instead, whose handler belongs to
  the latest render, does send \<open>cancel_queue\<close> with the id of t1.
\<close>

theorem unmount_with_ticket_sends_no_cancel:
  "ticket (current (fst (mm_run (mm_mount (Some exampleUser) True (Some ''python''))
                          [QueueJoined exampleTicket]))) = Some exampleTicket
   \<and> emitted (snd (mm_run (mm_mount (Some exampleUser) True (Some ''python''))
                          [QueueJoined exampleTicket, Unmount]))
       = [join_queue ''u1'' (Some ''python'')]
   \<and> emitted (snd (mm_run (mm_mount (Some exampleUser) True (Some ''python''))
                          [QueueJoined exampleTicket, ClickCancel]))
       = [join_queue ''u1'' (Some ''python''), cancel_queue ''t1'']"
  by (simp add: mount_example mm_listening_def mm_dispatch_def handleQueueJoined_def
        mm_cleanup_def cancelMatchmaking_def emit_def exampleTicket_def)

section \<open>The response interceptor: replays after a 401\<close>

lemma interceptor_run_example:
  "snd (interceptor_run exampleInterceptor
          [ResponseError requestA (Some 401),
           ResponseError requestB (Some 401),
           RefreshResolved ''t1'',
           ResponseError (requestB\<lparr>authorization := Some (bearer ''t1'')\<rparr>) (Some 401),
           RefreshResolved ''t2''])
     = [PostRefresh ''r1'',
        Send \<lparr>rid = 1, retry = True, authorization = Some (bearer ''t1'')\<rparr>,
        Send \<lparr>rid = 2, retry = False, authorization = Some (bearer ''t1'')\<rparr>,
        PostRefresh ''r1'',
        Send \<lparr>rid = 2, retry = True, authorization = Some (bearer ''t2'')\<rparr>]"
  by (simp add: exampleInterceptor_def requestA_def requestB_def)

text \<open>
  C10 on concrete runs. Requests 1 and 2 both fail with 401 while a refresh token is
  stored: request 1 starts the refresh, request 2 is queued. When the refresh returns,
  both are replayed, request 1 marked with \<open>_retry\<close>, request 2 unmarked. When the replay
  of request 2 fails with 401 again, the interceptor starts a second refresh and replays
  request 2 a second time; a second 401 for the marked request 1 is rejected at once.
  With no refresh token stored, the first 401 is rejected with the storage cleared and the
  redirect made, but \<open>isRefreshing\<close> stays true, so the next 401 is only queued: it is
  neither replayed nor rejected.
\<close>

theorem queued_request_replayed_twice:
  "replaysOf 2 (snd (interceptor_run exampleInterceptor
          [ResponseError requestA (Some 401),
           ResponseError requestB (Some 401),
           RefreshResolved ''t1'',
           ResponseError (requestB\<lparr>authorization := Some (bearer ''t1'')\<rparr>) (Some 401),
           RefreshResolved ''t2''])) = 2
   \<and> refreshesOf (snd (interceptor_run exampleInterceptor
          [ResponseError requestA (Some 401),
           ResponseError requestB (Some 401),
           RefreshResolved ''t1'',
           ResponseError (requestB\<lparr>authorization := Some (bearer ''t1'')\<rparr>) (Some 401),
           RefreshResolved ''t2''])) = 2
   \<and> snd (interceptor_run exampleInterceptor
          [ResponseError requestA (Some 401),
           RefreshResolved ''t1'',
           ResponseError (requestA\<lparr>retry := True, authorization := Some (bearer ''t1'')\<rparr>) (Some 401)])
       = [PostRefresh ''r1'',
          Send \<lparr>rid = 1, retry = True, authorization = Some (bearer ''t1'')\<rparr>,
          Reject 1]
   \<and> isRefreshing (fst (interceptor_run (exampleInterceptor\<lparr>localStorage := Map.empty\<rparr>)
          [ResponseError requestA (Some 401)]))
   \<and> interceptor_run (exampleInterceptor\<lparr>localStorage := Map.empty\<rparr>)
          [ResponseError requestA (Some 401), ResponseError requestB (Some 401)]
       = (exampleInterceptor\<lparr>localStorage := Map.empty, isRefreshing := True, href := ''/'',
            failedQueue := [requestB]\<rparr>, [Reject 1])"
  by (simp add: interceptor_run_example replaysOf_def refreshesOf_def)
     (simp add: exampleInterceptor_def requestA_def requestB_def)

end
